theory Spec2Isabelle
  imports Main
begin

section \<open>The shopping-cart store\<close>

text \<open>
  The store of \<^verbatim>\<open>src/components/store/store.jsx\<close> holds three data fields,
  \<^verbatim>\<open>products\<close>, \<^verbatim>\<open>cart\<close> and \<^verbatim>\<open>totalPriceShoppingCart\<close>, and four actions.
  Each action calls \<^verbatim>\<open>set\<close> with a function from the current state to the next one;
  an exception thrown inside that function leaves the store as it was and reaches
  the caller, so an action is modelled as a function from a state to either an
  error or the next state.

  A number of the program is an IEEE 754 double. Every number of the catalogue is
  an integer, and the model covers the integer-valued doubles: an \<open>int\<close> stands for
  the double of that value. Adding two of them rounds as the program does, see
  \<open>number_add\<close>.
\<close>

subsection \<open>Data\<close>

text \<open>A product object \<^verbatim>\<open>{ id, name, price }\<close>; the field \<^verbatim>\<open>id\<close> is named \<open>pid\<close>.\<close>

record product =
  pid :: int
  name :: string
  price :: int

text \<open>
  What an element of the \<^verbatim>\<open>cart\<close> array can be: a product object, the value
  \<^verbatim>\<open>undefined\<close> (what \<^verbatim>\<open>find\<close> returns when nothing matches), or \<^verbatim>\<open>null\<close>
  (what an \<^verbatim>\<open>undefined\<close> array element becomes in JSON).
\<close>

datatype entry = Product product | Undefined | Null

datatype error = TypeError

record state =
  products :: "product list"
  cart :: "entry list"
  totalPriceShoppingCart :: int

text \<open>The catalogue literal of the store.\<close>

definition defaultProducts :: "product list" where
  "defaultProducts =
     [\<lparr>pid = 1, name = ''product 1'', price = 50\<rparr>,
      \<lparr>pid = 2, name = ''product 2'', price = 30\<rparr>,
      \<lparr>pid = 3, name = ''product 3'', price = 40\<rparr>,
      \<lparr>pid = 4, name = ''product 4'', price = 78\<rparr>,
      \<lparr>pid = 5, name = ''product 5'', price = 90\<rparr>,
      \<lparr>pid = 6, name = ''product 6'', price = 60\<rparr>]"

text \<open>The state the store is created with: the catalogue, an empty cart, total 0.\<close>

definition initialState :: state where
  "initialState = \<lparr>products = defaultProducts, cart = [], totalPriceShoppingCart = 0\<rparr>"

subsection \<open>Array and property primitives\<close>

text \<open>
  \<^verbatim>\<open>Array.prototype.find\<close>: the first element that satisfies the predicate,
  \<^verbatim>\<open>undefined\<close> when there is none.
\<close>

fun array_find :: "(product \<Rightarrow> bool) \<Rightarrow> product list \<Rightarrow> entry" where
  "array_find P [] = Undefined"
| "array_find P (p # ps) = (if P p then Product p else array_find P ps)"

text \<open>
  Reading \<^verbatim>\<open>product.id\<close> and \<^verbatim>\<open>product.price\<close> of a cart element: a property
  read on \<^verbatim>\<open>undefined\<close> or \<^verbatim>\<open>null\<close> throws a \<^verbatim>\<open>TypeError\<close>.
\<close>

fun get_id :: "entry \<Rightarrow> error + int" where
  "get_id (Product p) = Inr (pid p)"
| "get_id Undefined = Inl TypeError"
| "get_id Null = Inl TypeError"

fun get_price :: "entry \<Rightarrow> error + int" where
  "get_price (Product p) = Inr (price p)"
| "get_price Undefined = Inl TypeError"
| "get_price Null = Inl TypeError"

text \<open>
  \<^verbatim>\<open>state.cart.filter((product) => product.id !== id)\<close>: the callback runs on the
  elements from left to right; the first one that throws ends the call.
\<close>

fun filter_cart :: "int \<Rightarrow> entry list \<Rightarrow> error + entry list" where
  "filter_cart i [] = Inr []"
| "filter_cart i (e # es) =
     (case get_id e of
        Inl err \<Rightarrow> Inl err
      | Inr j \<Rightarrow>
          (case filter_cart i es of
             Inl err \<Rightarrow> Inl err
           | Inr r \<Rightarrow> Inr (if j \<noteq> i then e # r else r)))"

text \<open>
  The \<^verbatim>\<open>+\<close> of two numbers is the addition of doubles: the exact sum, rounded to
  the nearest double, a tie going to the even mantissa. A double holds 53
  significant bits, so an integer of magnitude below \<open>2^53 = 9007199254740992\<close> is
  kept as it is, and a larger one loses its \<open>excess_bits\<close> lowest bits. (A sum of
  magnitude \<open>2^1024\<close> or more, which a double cannot hold, is beyond this model.)
\<close>

function excess_bits :: "nat \<Rightarrow> nat" where
  "excess_bits m = (if m < 9007199254740992 then 0 else Suc (excess_bits (m div 2)))"
  by pat_completeness auto
termination
  by (relation "measure (\<lambda>m. m)") auto

declare excess_bits.simps [simp del]

definition round_to_double :: "int \<Rightarrow> int" where
  "round_to_double n =
     (let m = nat \<bar>n\<bar>;
          k = excess_bits m;
          q = m div 2 ^ k;
          r = m mod 2 ^ k;
          q' = (if 2 ^ k < 2 * r \<or> (2 * r = 2 ^ k \<and> odd q) then Suc q else q)
      in sgn n * int (q' * 2 ^ k))"

definition number_add :: "int \<Rightarrow> int \<Rightarrow> int" where
  "number_add a b = round_to_double (a + b)"

text \<open>
  \<^verbatim>\<open>state.cart.reduce((previousValue, product) => previousValue + product.price, 0)\<close>,
  with the accumulator as first argument.
\<close>

fun reduce_price :: "int \<Rightarrow> entry list \<Rightarrow> error + int" where
  "reduce_price acc [] = Inr acc"
| "reduce_price acc (e # es) =
     (case get_price e of
        Inl err \<Rightarrow> Inl err
      | Inr v \<Rightarrow> reduce_price (number_add acc v) es)"

subsection \<open>The actions\<close>

definition addToCart :: "int \<Rightarrow> state \<Rightarrow> state" where
  "addToCart i s =
     (let newProduct = array_find (\<lambda>product. pid product = i) (products s)
      in s\<lparr>cart := cart s @ [newProduct]\<rparr>)"

definition deleteFromCart :: "int \<Rightarrow> state \<Rightarrow> error + state" where
  "deleteFromCart i s =
     (case filter_cart i (cart s) of
        Inl err \<Rightarrow> Inl err
      | Inr c \<Rightarrow> Inr (s\<lparr>cart := c\<rparr>))"

definition calculateTotalPriceOfCart :: "state \<Rightarrow> error + state" where
  "calculateTotalPriceOfCart s =
     (case reduce_price 0 (cart s) of
        Inl err \<Rightarrow> Inl err
      | Inr totalPrice \<Rightarrow> Inr (s\<lparr>totalPriceShoppingCart := totalPrice\<rparr>))"

text \<open>
  Modelled from the spec: the constant \<^verbatim>\<open>productsInitialState\<close>, imported from
  \<^verbatim>\<open>constants/initialState\<close>, is not among the sources. The specification describes
  it as the original default snapshot: the full six-item catalogue, an empty cart
  and a total of 0. \<^verbatim>\<open>set(() => productsInitialState)\<close> lays the fields of that
  object over the current state; as the object carries all three data fields, the
  next state is the object itself.
\<close>

definition productsInitialState :: state where
  "productsInitialState =
     \<lparr>products = defaultProducts, cart = [], totalPriceShoppingCart = 0\<rparr>"

definition clearCart :: "state \<Rightarrow> state" where
  "clearCart s = productsInitialState"

subsection \<open>The store as a transition system\<close>

datatype action =
  AddToCart int | DeleteFromCart int | ClearCart | CalculateTotalPriceOfCart

text \<open>Invoking an action on the store: either it throws, or there is a next state.\<close>

fun run :: "action \<Rightarrow> state \<Rightarrow> error + state" where
  "run (AddToCart i) s = Inr (addToCart i s)"
| "run (DeleteFromCart i) s = deleteFromCart i s"
| "run ClearCart s = Inr (clearCart s)"
| "run CalculateTotalPriceOfCart s = calculateTotalPriceOfCart s"

text \<open>The states the store can be in, starting from the state it is created with.\<close>

inductive reachable :: "state \<Rightarrow> bool" where
  start: "reachable initialState"
| step: "reachable s \<Longrightarrow> run a s = Inr s' \<Longrightarrow> reachable s'"

subsection \<open>Persistence\<close>












section \<open>Auxiliary facts\<close>

lemma array_find_hit:
  "\<exists>p \<in> set ps. P p \<Longrightarrow> \<exists>p. array_find P ps = Product p \<and> P p \<and> p \<in> set ps"
  by (induction ps) auto

lemma array_find_miss: "\<forall>p \<in> set ps. \<not> P p \<Longrightarrow> array_find P ps = Undefined"
  by (induction ps) auto

lemma filter_cart_products:
  "filter_cart i (map Product ps) = Inr (map Product (filter (\<lambda>p. pid p \<noteq> i) ps))"
  by (induction ps) auto

text \<open>Integers of magnitude up to \<open>2^53\<close> are doubles, and are added exactly.\<close>

lemma round_to_double_small: "\<bar>n\<bar> < 9007199254740992 \<Longrightarrow> round_to_double n = n"
proof -
  assume "\<bar>n\<bar> < 9007199254740992"
  then have "nat \<bar>n\<bar> < 9007199254740992" by linarith
  then have "excess_bits (nat \<bar>n\<bar>) = 0"
    by (simp add: excess_bits.simps)
  then show ?thesis
    unfolding round_to_double_def Let_def by (simp add: sgn_if)
qed

lemma excess_bits_two53: "excess_bits 9007199254740992 = 1"
  by (simp add: excess_bits.simps)

lemma round_to_double_two53:
  "round_to_double 9007199254740992 = 9007199254740992"
  "round_to_double (- 9007199254740992) = - 9007199254740992"
  unfolding round_to_double_def Let_def by (simp_all add: excess_bits_two53)

lemma round_to_double_safe: "\<bar>n\<bar> \<le> 9007199254740992 \<Longrightarrow> round_to_double n = n"
proof -
  assume "\<bar>n\<bar> \<le> 9007199254740992"
  then consider "\<bar>n\<bar> < 9007199254740992" | "n = 9007199254740992"
    | "n = - 9007199254740992"
    by linarith
  then show ?thesis
    by cases (simp_all only: round_to_double_small round_to_double_two53)
qed

lemma number_add_safe: "\<bar>a + b\<bar> \<le> 9007199254740992 \<Longrightarrow> number_add a b = a + b"
  by (simp add: number_add_def round_to_double_safe)

text \<open>Beyond \<open>2^53\<close> the sum is rounded: \<open>2^53 + 1\<close> is a tie and goes to \<open>2^53\<close>.\<close>

lemma excess_bits_two53_plus_1: "excess_bits 9007199254740993 = 1"
  by (simp add: excess_bits.simps)

lemma number_add_two53_1: "number_add 9007199254740992 1 = 9007199254740992"
  unfolding number_add_def round_to_double_def Let_def
  by (simp add: excess_bits_two53_plus_1)

lemma reduce_price_products_safe:
  "0 \<le> acc \<Longrightarrow> \<forall>p \<in> set ps. 0 \<le> price p
     \<Longrightarrow> acc + sum_list (map price ps) \<le> 9007199254740992
     \<Longrightarrow> reduce_price acc (map Product ps) = Inr (acc + sum_list (map price ps))"
proof (induction ps arbitrary: acc)
  case Nil
  then show ?case by simp
next
  case (Cons p ps)
  have nonneg: "0 \<le> sum_list (map price ps)"
    using Cons.prems(2) by (intro sum_list_nonneg) auto
  have p0: "0 \<le> price p"
    using Cons.prems(2) by simp
  have bound: "acc + price p + sum_list (map price ps) \<le> 9007199254740992"
    using Cons.prems(3) by simp
  have exact: "number_add acc (price p) = acc + price p"
    using Cons.prems(1) p0 nonneg bound by (intro number_add_safe) linarith
  have "reduce_price (acc + price p) (map Product ps)
      = Inr (acc + price p + sum_list (map price ps))"
    using Cons.prems(1,2) p0 bound by (intro Cons.IH) simp_all
  then show ?case
    by (simp add: exact)
qed

lemma reduce_price_products_total: "\<exists>t. reduce_price acc (map Product ps) = Inr t"
  by (induction ps arbitrary: acc) simp_all

text \<open>An element that is not a product makes both loops throw.\<close>

lemma filter_cart_throws:
  "Undefined \<in> set es \<or> Null \<in> set es \<Longrightarrow> filter_cart i es = Inl TypeError"
proof (induction es)
  case Nil
  then show ?case by simp
next
  case (Cons e es)
  show ?case
  proof (cases e)
    case (Product p)
    with Cons have "filter_cart i es = Inl TypeError" by auto
    with Product show ?thesis by simp
  qed simp_all
qed

lemma reduce_price_throws:
  "Undefined \<in> set es \<or> Null \<in> set es \<Longrightarrow> reduce_price acc es = Inl TypeError"
proof (induction es arbitrary: acc)
  case Nil
  then show ?case by simp
next
  case (Cons e es)
  show ?case
  proof (cases e)
    case (Product p)
    with Cons.prems have "Undefined \<in> set es \<or> Null \<in> set es" by auto
    then have "reduce_price (number_add acc (price p)) es = Inl TypeError"
      by (rule Cons.IH)
    with Product show ?thesis by simp
  qed simp_all
qed

lemma length_filter_split:
  "length (filter (\<lambda>p. pid p \<noteq> i) ps) + length (filter (\<lambda>p. pid p = i) ps) = length ps"
  by (induction ps) auto






section \<open>Properties of the actions\<close>

text \<open>
  C1. When some product of \<^verbatim>\<open>products\<close> has the given id, \<open>addToCart\<close> yields a
  state whose cart is the old cart followed by one product with that id: the length
  grows by exactly one, the last element is that product, and the earlier elements
  are kept in their order.
\<close>

theorem addToCart_appends_product:
  assumes "\<exists>p \<in> set (products s). pid p = i"
  shows "\<exists>p. p \<in> set (products s) \<and> pid p = i
           \<and> cart (addToCart i s) = cart s @ [Product p]
           \<and> length (cart (addToCart i s)) = length (cart s) + 1
           \<and> last (cart (addToCart i s)) = Product p
           \<and> take (length (cart s)) (cart (addToCart i s)) = cart s"
proof -
  from array_find_hit [of "products s" "\<lambda>product. pid product = i"] assms
  obtain p where p: "array_find (\<lambda>product. pid product = i) (products s) = Product p"
    "pid p = i" "p \<in> set (products s)"
    by blast
  then have "cart (addToCart i s) = cart s @ [Product p]"
    by (simp add: addToCart_def)
  with p show ?thesis by auto
qed

theorem addToCart_appends_product_witness:
  "(\<exists>p \<in> set (products initialState). pid p = 3)
   \<and> (\<exists>p. p \<in> set (products initialState) \<and> pid p = 3
        \<and> cart (addToCart 3 initialState) = cart initialState @ [Product p]
        \<and> length (cart (addToCart 3 initialState)) = length (cart initialState) + 1
        \<and> last (cart (addToCart 3 initialState)) = Product p
        \<and> take (length (cart initialState)) (cart (addToCart 3 initialState))
            = cart initialState)"
proof -
  have h: "\<exists>p \<in> set (products initialState). pid p = 3"
    by (simp add: initialState_def defaultProducts_def)
  from h addToCart_appends_product [OF h] show ?thesis by blast
qed

text \<open>
  C2. On a state whose cart contains only products, \<open>deleteFromCart\<close> succeeds and
  yields the state whose cart is exactly the earlier entries with a different id, in
  their order; the length drops by the number of earlier entries with the given id.
\<close>

theorem deleteFromCart_filters:
  assumes "cart s = map Product ps"
  shows "deleteFromCart i s = Inr (s\<lparr>cart := map Product (filter (\<lambda>p. pid p \<noteq> i) ps)\<rparr>)
         \<and> length (map Product (filter (\<lambda>p. pid p \<noteq> i) ps))
             = length (cart s) - length (filter (\<lambda>p. pid p = i) ps)
         \<and> length (filter (\<lambda>p. pid p = i) ps) \<le> length (cart s)"
proof -
  have "deleteFromCart i s = Inr (s\<lparr>cart := map Product (filter (\<lambda>p. pid p \<noteq> i) ps)\<rparr>)"
    by (simp add: deleteFromCart_def assms filter_cart_products)
  moreover have "length (map Product (filter (\<lambda>p. pid p \<noteq> i) ps))
      = length (cart s) - length (filter (\<lambda>p. pid p = i) ps)"
    using length_filter_split [of i ps] by (simp add: assms)
  moreover have "length (filter (\<lambda>p. pid p = i) ps) \<le> length (cart s)"
    by (simp add: assms)
  ultimately show ?thesis by blast
qed

theorem deleteFromCart_filters_witness:
  "cart (addToCart 2 (addToCart 1 (addToCart 2 initialState)))
     = map Product [\<lparr>pid = 2, name = ''product 2'', price = 30\<rparr>,
                    \<lparr>pid = 1, name = ''product 1'', price = 50\<rparr>,
                    \<lparr>pid = 2, name = ''product 2'', price = 30\<rparr>]
   \<and> deleteFromCart 2 (addToCart 2 (addToCart 1 (addToCart 2 initialState)))
       = Inr (addToCart 2 (addToCart 1 (addToCart 2 initialState))
               \<lparr>cart := [Product \<lparr>pid = 1, name = ''product 1'', price = 50\<rparr>]\<rparr>)
   \<and> length [Product \<lparr>pid = 1, name = ''product 1'', price = 50\<rparr>] = 3 - (2::nat)"
proof -
  have h: "cart (addToCart 2 (addToCart 1 (addToCart 2 initialState)))
     = map Product [\<lparr>pid = 2, name = ''product 2'', price = 30\<rparr>,
                    \<lparr>pid = 1, name = ''product 1'', price = 50\<rparr>,
                    \<lparr>pid = 2, name = ''product 2'', price = 30\<rparr>]"
    by (simp add: addToCart_def initialState_def defaultProducts_def)
  from h deleteFromCart_filters [OF h, of 2] show ?thesis by simp
qed

text \<open>
  C3, as stated for every cart of products, fails: additions are additions of
  doubles, and for a cart of two products priced \<open>2^53\<close> and 1 the total is
  \<open>2^53 = 9007199254740992\<close>, while the prices sum to \<open>9007199254740993\<close>.
\<close>

theorem calculateTotalPriceOfCart_rounding_counterexample:
  "calculateTotalPriceOfCart
     (initialState\<lparr>cart := [Product \<lparr>pid = 7, name = ''big'', price = 9007199254740992\<rparr>,
                              Product \<lparr>pid = 8, name = ''one'', price = 1\<rparr>]\<rparr>)
     = Inr (initialState
              \<lparr>cart := [Product \<lparr>pid = 7, name = ''big'', price = 9007199254740992\<rparr>,
                        Product \<lparr>pid = 8, name = ''one'', price = 1\<rparr>],
               totalPriceShoppingCart := 9007199254740992\<rparr>)
   \<and> sum_list (map price [\<lparr>pid = 7, name = ''big'', price = 9007199254740992\<rparr>,
                             \<lparr>pid = 8, name = ''one'', price = 1\<rparr>])
       = 9007199254740993"
  by (simp add: calculateTotalPriceOfCart_def number_add_safe number_add_two53_1)

text \<open>
  C3 (amended). On a state whose cart contains only products, with prices that are
  non-negative integers of sum at most \<open>2^53\<close>, \<open>calculateTotalPriceOfCart\<close>
  succeeds and yields the state whose \<open>totalPriceShoppingCart\<close> is the sum of the
  prices of the cart entries, the other fields unchanged; the total is 0 for the
  empty cart and 80 for a cart of two products priced 50 and 30.
\<close>

theorem calculateTotalPriceOfCart_safe_sum:
  "(cart s = map Product ps \<and> (\<forall>p \<in> set ps. 0 \<le> price p)
      \<and> sum_list (map price ps) \<le> 9007199254740992 \<longrightarrow>
      calculateTotalPriceOfCart s
        = Inr (s\<lparr>totalPriceShoppingCart := sum_list (map price ps)\<rparr>))
   \<and> (cart s = [] \<longrightarrow>
      calculateTotalPriceOfCart s = Inr (s\<lparr>totalPriceShoppingCart := 0\<rparr>))
   \<and> (cart s = [Product p, Product q] \<and> price p = 50 \<and> price q = 30 \<longrightarrow>
      calculateTotalPriceOfCart s = Inr (s\<lparr>totalPriceShoppingCart := 80\<rparr>))"
proof -
  have general: "calculateTotalPriceOfCart t
      = Inr (t\<lparr>totalPriceShoppingCart := sum_list (map price xs)\<rparr>)"
    if "cart t = map Product xs" and "\<forall>p \<in> set xs. 0 \<le> price p"
      and "sum_list (map price xs) \<le> 9007199254740992" for t xs
    using that reduce_price_products_safe [of 0 xs]
    by (simp add: calculateTotalPriceOfCart_def)
  have empty: "calculateTotalPriceOfCart s = Inr (s\<lparr>totalPriceShoppingCart := 0\<rparr>)"
    if "cart s = []"
    using general [of s "[]"] that by simp
  have two: "calculateTotalPriceOfCart s = Inr (s\<lparr>totalPriceShoppingCart := 80\<rparr>)"
    if "cart s = [Product p, Product q] \<and> price p = 50 \<and> price q = 30"
    using general [of s "[p, q]"] that by simp
  from general [of s ps] empty two show ?thesis by blast
qed

theorem calculateTotalPriceOfCart_safe_sum_witness:
  "calculateTotalPriceOfCart initialState = Inr initialState
   \<and> calculateTotalPriceOfCart (addToCart 2 (addToCart 1 initialState))
       = Inr (addToCart 2 (addToCart 1 initialState)\<lparr>totalPriceShoppingCart := 80\<rparr>)
   \<and> calculateTotalPriceOfCart (addToCart 4 (addToCart 4 (addToCart 5 initialState)))
       = Inr (addToCart 4 (addToCart 4 (addToCart 5 initialState))
               \<lparr>totalPriceShoppingCart := 246\<rparr>)"
proof -
  have e: "cart initialState = []"
    by (simp add: initialState_def)
  have t: "cart (addToCart 2 (addToCart 1 initialState))
      = [Product \<lparr>pid = 1, name = ''product 1'', price = 50\<rparr>,
         Product \<lparr>pid = 2, name = ''product 2'', price = 30\<rparr>]"
    by (simp add: addToCart_def initialState_def defaultProducts_def)
  have g: "cart (addToCart 4 (addToCart 4 (addToCart 5 initialState)))
      = map Product [\<lparr>pid = 5, name = ''product 5'', price = 90\<rparr>,
                     \<lparr>pid = 4, name = ''product 4'', price = 78\<rparr>,
                     \<lparr>pid = 4, name = ''product 4'', price = 78\<rparr>]"
    by (simp add: addToCart_def initialState_def defaultProducts_def)
  have "calculateTotalPriceOfCart initialState = Inr initialState"
    using calculateTotalPriceOfCart_safe_sum [of initialState "[]"] e
    by (simp add: initialState_def)
  moreover have "calculateTotalPriceOfCart (addToCart 2 (addToCart 1 initialState))
       = Inr (addToCart 2 (addToCart 1 initialState)\<lparr>totalPriceShoppingCart := 80\<rparr>)"
    using calculateTotalPriceOfCart_safe_sum
      [of "addToCart 2 (addToCart 1 initialState)" "[]"
          "\<lparr>pid = 1, name = ''product 1'', price = 50\<rparr>"
          "\<lparr>pid = 2, name = ''product 2'', price = 30\<rparr>"] t
    by simp
  moreover have "calculateTotalPriceOfCart (addToCart 4 (addToCart 4 (addToCart 5 initialState)))
       = Inr (addToCart 4 (addToCart 4 (addToCart 5 initialState))
               \<lparr>totalPriceShoppingCart := 246\<rparr>)"
    using calculateTotalPriceOfCart_safe_sum
      [of "addToCart 4 (addToCart 4 (addToCart 5 initialState))"
          "[\<lparr>pid = 5, name = ''product 5'', price = 90\<rparr>,
            \<lparr>pid = 4, name = ''product 4'', price = 78\<rparr>,
            \<lparr>pid = 4, name = ''product 4'', price = 78\<rparr>]"] g
    by simp
  ultimately show ?thesis by blast
qed

text \<open>
  C4. Whatever the prior state, \<open>clearCart\<close> yields the state with an empty cart,
  a total of 0 and the default catalogue of six products, which is the state the
  store is created with.
\<close>

theorem clearCart_resets:
  "cart (clearCart s) = []
   \<and> totalPriceShoppingCart (clearCart s) = 0
   \<and> products (clearCart s) = defaultProducts
   \<and> length (products (clearCart s)) = 6
   \<and> clearCart s = initialState"
  by (simp add: clearCart_def productsInitialState_def initialState_def defaultProducts_def)

text \<open>
  C6. When no product of \<^verbatim>\<open>products\<close> has the given id, \<open>addToCart\<close> still
  appends exactly one element, and that element is \<^verbatim>\<open>undefined\<close>, not a product:
  the cart grows by one and is not left as it was.
\<close>

theorem addToCart_absent_appends_undefined:
  assumes "\<forall>p \<in> set (products s). pid p \<noteq> i"
  shows "cart (addToCart i s) = cart s @ [Undefined]
         \<and> length (cart (addToCart i s)) = length (cart s) + 1
         \<and> cart (addToCart i s) \<noteq> cart s
         \<and> (\<forall>p. last (cart (addToCart i s)) \<noteq> Product p)"
proof -
  have "array_find (\<lambda>product. pid product = i) (products s) = Undefined"
    using assms by (intro array_find_miss) simp
  then have "cart (addToCart i s) = cart s @ [Undefined]"
    by (simp add: addToCart_def)
  then show ?thesis by simp
qed

theorem addToCart_absent_appends_undefined_witness:
  "list_all (\<lambda>p. pid p \<noteq> 99) (products initialState)
   \<and> cart (addToCart 99 initialState) = [Undefined]"
proof -
  have h: "\<forall>p \<in> set (products initialState). pid p \<noteq> 99"
    by (simp add: initialState_def defaultProducts_def)
  from h addToCart_absent_appends_undefined [OF h] show ?thesis
    by (simp add: initialState_def list_all_iff)
qed

text \<open>
  C7, as stated for every state, fails: after \<open>addToCart 99\<close> the cart is
  \<^verbatim>\<open>[undefined]\<close>, no entry of it has the id 1, and \<open>deleteFromCart 1\<close> throws a
  \<^verbatim>\<open>TypeError\<close> when it reads the id of that entry.
\<close>

theorem deleteFromCart_absent_id_counterexample:
  "cart (addToCart 99 initialState) = [Undefined]
   \<and> get_id Undefined \<noteq> Inr 1
   \<and> deleteFromCart 1 (addToCart 99 initialState) = Inl TypeError
   \<and> deleteFromCart 1 (addToCart 99 initialState) \<noteq> Inr (addToCart 99 initialState)"
  by (simp add: deleteFromCart_def addToCart_def initialState_def defaultProducts_def)

text \<open>
  C7 (amended). On a state whose cart contains only products, none of which has the
  given id, \<open>deleteFromCart\<close> raises no error and yields the prior state unchanged.
\<close>

theorem deleteFromCart_absent_id_noop:
  assumes "cart s = map Product ps" and "\<forall>p \<in> set ps. pid p \<noteq> i"
  shows "deleteFromCart i s = Inr s"
proof -
  from assms(2) have "filter (\<lambda>p. pid p \<noteq> i) ps = ps"
    by (simp add: filter_id_conv)
  then have "filter_cart i (cart s) = Inr (cart s)"
    by (simp add: assms(1) filter_cart_products)
  then show ?thesis
    by (simp add: deleteFromCart_def)
qed

theorem deleteFromCart_absent_id_noop_witness:
  "cart (addToCart 1 initialState) = map Product [\<lparr>pid = 1, name = ''product 1'', price = 50\<rparr>]
   \<and> list_all (\<lambda>p. pid p \<noteq> 4) [\<lparr>pid = 1, name = ''product 1'', price = 50\<rparr>]
   \<and> deleteFromCart 4 (addToCart 1 initialState) = Inr (addToCart 1 initialState)"
proof -
  have c: "cart (addToCart 1 initialState)
      = map Product [\<lparr>pid = 1, name = ''product 1'', price = 50\<rparr>]"
    by (simp add: addToCart_def initialState_def defaultProducts_def)
  have n: "\<forall>p \<in> set [\<lparr>pid = 1, name = ''product 1'', price = 50\<rparr>]. pid p \<noteq> (4::int)"
    by simp
  from c n deleteFromCart_absent_id_noop [OF c n] show ?thesis by simp
qed

text \<open>
  C8. \<open>addToCart\<close> leaves \<open>products\<close> and \<open>totalPriceShoppingCart\<close> as they were,
  and so does every state \<open>deleteFromCart\<close> yields: the total is not recomputed
  when the cart changes. Every state \<open>calculateTotalPriceOfCart\<close> yields has the
  prior \<open>products\<close> and \<open>cart\<close>. (An action that throws yields no state and leaves
  the store as it was.)
\<close>

theorem actions_frame:
  "products (addToCart i s) = products s
   \<and> totalPriceShoppingCart (addToCart i s) = totalPriceShoppingCart s
   \<and> (\<forall>s'. deleteFromCart i s = Inr s' \<longrightarrow>
         products s' = products s \<and> totalPriceShoppingCart s' = totalPriceShoppingCart s)
   \<and> (\<forall>s'. calculateTotalPriceOfCart s = Inr s' \<longrightarrow>
         products s' = products s \<and> cart s' = cart s)"
  by (auto simp: addToCart_def deleteFromCart_def calculateTotalPriceOfCart_def
           split: sum.splits)

theorem actions_frame_witness:
  "deleteFromCart 1 (addToCart 1 initialState) = Inr initialState
   \<and> products initialState = products (addToCart 1 initialState)
   \<and> totalPriceShoppingCart initialState = totalPriceShoppingCart (addToCart 1 initialState)
   \<and> calculateTotalPriceOfCart (addToCart 1 initialState)
       = Inr (addToCart 1 initialState\<lparr>totalPriceShoppingCart := 50\<rparr>)
   \<and> products (addToCart 1 initialState\<lparr>totalPriceShoppingCart := 50\<rparr>)
       = products (addToCart 1 initialState)
   \<and> cart (addToCart 1 initialState\<lparr>totalPriceShoppingCart := 50\<rparr>)
       = cart (addToCart 1 initialState)"
proof -
  have d: "deleteFromCart 1 (addToCart 1 initialState) = Inr initialState"
    by (simp add: deleteFromCart_def addToCart_def initialState_def defaultProducts_def)
  have c: "calculateTotalPriceOfCart (addToCart 1 initialState)
       = Inr (addToCart 1 initialState\<lparr>totalPriceShoppingCart := 50\<rparr>)"
    by (simp add: calculateTotalPriceOfCart_def addToCart_def initialState_def
        defaultProducts_def number_add_safe)
  from d c actions_frame [of 1 "addToCart 1 initialState"] show ?thesis
    by simp
qed

text \<open>
  C10. On a state whose cart contains only products, none of which has the given id,
  and whose \<open>products\<close> has a product with that id, \<open>addToCart\<close> followed by
  \<open>deleteFromCart\<close> with the same id gives back the original state, and so the
  original cart.
\<close>

theorem add_then_delete_restores:
  assumes "cart s = map Product ps"
    and "\<forall>p \<in> set ps. pid p \<noteq> i"
    and "\<exists>p \<in> set (products s). pid p = i"
  shows "deleteFromCart i (addToCart i s) = Inr s
         \<and> (\<exists>s'. deleteFromCart i (addToCart i s) = Inr s' \<and> cart s' = cart s)"
proof -
  from array_find_hit [of "products s" "\<lambda>product. pid product = i"] assms(3)
  obtain p where p: "array_find (\<lambda>product. pid product = i) (products s) = Product p"
    "pid p = i"
    by blast
  have added: "cart (addToCart i s) = map Product (ps @ [p])"
    by (simp add: addToCart_def p(1) assms(1))
  from assms(2) have "filter (\<lambda>p. pid p \<noteq> i) ps = ps"
    by (simp add: filter_id_conv)
  with p(2) have "filter (\<lambda>p. pid p \<noteq> i) (ps @ [p]) = ps"
    by simp
  then have "filter_cart i (cart (addToCart i s)) = Inr (cart s)"
    by (simp only: added filter_cart_products assms(1))
  then have "deleteFromCart i (addToCart i s) = Inr s"
    by (simp add: deleteFromCart_def) (simp add: addToCart_def)
  then show ?thesis by simp
qed

theorem add_then_delete_restores_witness:
  "cart (addToCart 1 initialState) = map Product [\<lparr>pid = 1, name = ''product 1'', price = 50\<rparr>]
   \<and> list_all (\<lambda>p. pid p \<noteq> 2) [\<lparr>pid = 1, name = ''product 1'', price = 50\<rparr>]
   \<and> (\<exists>p \<in> set (products (addToCart 1 initialState)). pid p = 2)
   \<and> deleteFromCart 2 (addToCart 2 (addToCart 1 initialState)) = Inr (addToCart 1 initialState)"
proof -
  have c: "cart (addToCart 1 initialState)
      = map Product [\<lparr>pid = 1, name = ''product 1'', price = 50\<rparr>]"
    by (simp add: addToCart_def initialState_def defaultProducts_def)
  have n: "\<forall>p \<in> set [\<lparr>pid = 1, name = ''product 1'', price = 50\<rparr>]. pid p \<noteq> (2::int)"
    by simp
  have e: "\<exists>p \<in> set (products (addToCart 1 initialState)). pid p = 2"
    by (simp add: addToCart_def initialState_def defaultProducts_def)
  from c n e add_then_delete_restores [OF c n e] show ?thesis by simp
qed

text \<open>
  C5, as stated for every reachable state, fails: the state after \<open>addToCart 99\<close>
  is reachable, its cart is \<^verbatim>\<open>[undefined]\<close>, and on it both \<open>deleteFromCart\<close> and
  \<open>calculateTotalPriceOfCart\<close> throw a \<^verbatim>\<open>TypeError\<close>.
\<close>

theorem actions_never_fail_counterexample:
  "reachable (addToCart 99 initialState)
   \<and> run (DeleteFromCart 1) (addToCart 99 initialState) = Inl TypeError
   \<and> run CalculateTotalPriceOfCart (addToCart 99 initialState) = Inl TypeError"
proof -
  have "run (AddToCart 99) initialState = Inr (addToCart 99 initialState)"
    by simp
  with reachable.start have "reachable (addToCart 99 initialState)"
    by (rule reachable.step)
  moreover have "cart (addToCart 99 initialState) = [Undefined]"
    by (simp add: addToCart_def initialState_def defaultProducts_def)
  ultimately show ?thesis
    by (simp add: deleteFromCart_def calculateTotalPriceOfCart_def)
qed

text \<open>
  C5 (amended). Each action is a function from the current state to the next one
  that rejects no argument: \<open>addToCart\<close> and \<open>clearCart\<close> yield a next state on
  every state and for every id, and on a state whose cart contains only products
  every action, with every id, yields a next state. The only check made on an
  argument is the lookup of \<open>addToCart\<close>, whose result is appended whatever it is.
  On a state whose cart holds an entry that is not a product (\<^verbatim>\<open>undefined\<close>, or
  \<^verbatim>\<open>null\<close>), \<open>deleteFromCart\<close>, with every id, and \<open>calculateTotalPriceOfCart\<close>
  throw a \<^verbatim>\<open>TypeError\<close>.
\<close>

theorem actions_total_on_product_carts:
  "(\<exists>s'. run (AddToCart i) s = Inr s')
   \<and> (\<exists>s'. run ClearCart s = Inr s')
   \<and> (cart s = map Product ps \<longrightarrow> (\<exists>s'. run a s = Inr s'))
   \<and> run (AddToCart i) s
       = Inr (s\<lparr>cart := cart s @ [array_find (\<lambda>product. pid product = i) (products s)]\<rparr>)
   \<and> (Undefined \<in> set (cart s) \<or> Null \<in> set (cart s) \<longrightarrow>
        run (DeleteFromCart i) s = Inl TypeError
        \<and> run CalculateTotalPriceOfCart s = Inl TypeError)"
proof -
  have total: "\<exists>s'. run a s = Inr s'" if c: "cart s = map Product ps"
  proof (cases a)
    case (AddToCart j)
    then show ?thesis by simp
  next
    case (DeleteFromCart j)
    then show ?thesis
      by (simp add: deleteFromCart_def c filter_cart_products)
  next
    case ClearCart
    then show ?thesis by simp
  next
    case CalculateTotalPriceOfCart
    from reduce_price_products_total [of 0 ps]
    obtain t where "reduce_price 0 (map Product ps) = Inr t" by blast
    with CalculateTotalPriceOfCart show ?thesis
      by (simp add: calculateTotalPriceOfCart_def c)
  qed
  have lookup: "run (AddToCart i) s
      = Inr (s\<lparr>cart := cart s @ [array_find (\<lambda>product. pid product = i) (products s)]\<rparr>)"
    by (simp add: addToCart_def)
  have throws: "run (DeleteFromCart i) s = Inl TypeError
      \<and> run CalculateTotalPriceOfCart s = Inl TypeError"
    if "Undefined \<in> set (cart s) \<or> Null \<in> set (cart s)"
    using filter_cart_throws [OF that, of i] reduce_price_throws [OF that, of 0]
    by (simp add: deleteFromCart_def calculateTotalPriceOfCart_def)
  from total lookup throws show ?thesis by simp
qed

theorem actions_total_on_product_carts_witness:
  "cart (addToCart 1 initialState) = map Product [\<lparr>pid = 1, name = ''product 1'', price = 50\<rparr>]
   \<and> (\<exists>s'. run (DeleteFromCart 1) (addToCart 1 initialState) = Inr s')
   \<and> run (DeleteFromCart 1) (addToCart 1 initialState) = Inr initialState
   \<and> Undefined \<in> set (cart (addToCart 1 (addToCart 99 initialState)))
   \<and> run (DeleteFromCart 1) (addToCart 1 (addToCart 99 initialState)) = Inl TypeError
   \<and> run CalculateTotalPriceOfCart (addToCart 1 (addToCart 99 initialState)) = Inl TypeError"
proof -
  have c: "cart (addToCart 1 initialState)
      = map Product [\<lparr>pid = 1, name = ''product 1'', price = 50\<rparr>]"
    by (simp add: addToCart_def initialState_def defaultProducts_def)
  have d: "run (DeleteFromCart 1) (addToCart 1 initialState) = Inr initialState"
    by (simp add: deleteFromCart_def addToCart_def initialState_def defaultProducts_def)
  have u: "Undefined \<in> set (cart (addToCart 1 (addToCart 99 initialState)))"
    by (simp add: addToCart_def initialState_def defaultProducts_def)
  from c d actions_total_on_product_carts
    [of 1 "addToCart 1 initialState" "[\<lparr>pid = 1, name = ''product 1'', price = 50\<rparr>]"
        "DeleteFromCart 1"]
  have first: "\<exists>s'. run (DeleteFromCart 1) (addToCart 1 initialState) = Inr s'"
    by blast
  from u actions_total_on_product_carts
    [of 1 "addToCart 1 (addToCart 99 initialState)" "[]" ClearCart]
  have second: "run (DeleteFromCart 1) (addToCart 1 (addToCart 99 initialState)) = Inl TypeError
      \<and> run CalculateTotalPriceOfCart (addToCart 1 (addToCart 99 initialState))
          = Inl TypeError"
    by blast
  from c d u first second show ?thesis by blast
qed

section \<open>Properties of the persisted state\<close>




end
